theory Spec2Isabelle
  imports Complex_Main "HOL-Library.AList" "HOL-Library.Sublist" "HOL-Library.Word"
begin

section \<open>Python values, exceptions and external effects\<close>

text \<open>
  The module \<^verbatim>\<open>unlicense/frida_exec.py\<close> works on dynamically typed values: the
  messages of the instrumentation agent and the results of its remote procedures are
  decoded JSON (\<^verbatim>\<open>Dict[str, Any]\<close>), memory reads are \<^verbatim>\<open>bytes\<close>, and the
  session and script objects of the instrumentation library are opaque handles.
  Text is modelled with 8-bit characters. A dictionary is the list of its items in
  insertion order; a lookup takes the first item of the key.
\<close>

datatype pyval =
    PNone
  | PBool bool
  | PInt int
  | PFloat real
  | PStr string
  | PBytes "8 word list"
  | PList "pyval list"
  | PDict "(string \<times> pyval) list"
  | PHandle nat

type_synonym pydict = "(string \<times> pyval) list"

text \<open>
  The exceptions the module can raise or let through. \<open>Exception e\<close> is what
  \<^verbatim>\<open>raise Exception from e\<close> raises: a bare \<^verbatim>\<open>Exception\<close> whose cause is \<open>e\<close>.
  \<open>RPCException\<close> is \<^verbatim>\<open>frida.core.RPCException\<close>, the report of a failed remote call;
  \<open>ExternalError\<close> is any other exception of an external call.
\<close>

datatype exn =
    KeyError string
  | TypeError
  | ValueError
  | AttributeError
  | NotImplementedError string
  | RPCException string
  | Exception exn
  | ExternalError string

text \<open>
  Everything the module does to the outside world is a call of the instrumentation
  library, of a remote procedure of the agent (through the script's \<^verbatim>\<open>exports\<close>), of the
  resource loader or of the logger. A run is recorded as the list of these calls in the
  order they were made. The environment answers a call, given the calls made before it,
  with a value or an exception.
\<close>

datatype call =
    Frida_spawn "string list"
  | Frida_attach pyval
  | Frida_resume pyval
  | Frida_kill pyval
  | Resources_read string string
  | Session_create_script pyval pyval
  | Session_detach pyval
  | Script_on pyval string
  | Script_load pyval
  | Rpc pyval string "pyval list"
  | Log_error pyval
  | Notify_oep_reached int int

type_synonym trace = "call list"
type_synonym env = "trace \<Rightarrow> call \<Rightarrow> exn + pyval"
type_synonym 'a io = "trace \<Rightarrow> (exn + 'a) \<times> trace"

definition io_return :: "'a \<Rightarrow> 'a io" where
  "io_return x tr = (Inr x, tr)"

definition io_raise :: "exn \<Rightarrow> 'a io" where
  "io_raise e tr = (Inl e, tr)"

definition io_bind :: "'a io \<Rightarrow> ('a \<Rightarrow> 'b io) \<Rightarrow> 'b io" where
  "io_bind m f tr = (case m tr of (Inl e, tr') \<Rightarrow> (Inl e, tr') | (Inr x, tr') \<Rightarrow> f x tr')"

definition lift :: "exn + 'a \<Rightarrow> 'a io" where
  "lift r tr = (r, tr)"

definition perform :: "env \<Rightarrow> call \<Rightarrow> pyval io" where
  "perform env c tr = (env tr c, tr @ [c])"

text \<open>\<^verbatim>\<open>LOG.error(x)\<close>: the logger records the value and never raises.\<close>

definition log_error :: "pyval \<Rightarrow> unit io" where
  "log_error v tr = (Inr (), tr @ [Log_error v])"

text \<open>
  The callback that the caller hands to \<^verbatim>\<open>spawn_and_instrument\<close>, seen from the
  module: an external call with the two addresses, whose return value is dropped.
\<close>

definition caller_callback :: "env \<Rightarrow> int \<Rightarrow> int \<Rightarrow> unit io" where
  "caller_callback env base oep =
     io_bind (perform env (Notify_oep_reached base oep)) (\<lambda>_. io_return ())"

section \<open>Built-in operations of Python used by the module\<close>

text \<open>\<^verbatim>\<open>x[key]\<close> with a text key: only a dictionary can be indexed by text.\<close>

fun py_getitem :: "pyval \<Rightarrow> string \<Rightarrow> exn + pyval" where
  "py_getitem (PDict d) k = (case map_of d k of None \<Rightarrow> Inl (KeyError k) | Some v \<Rightarrow> Inr v)"
| "py_getitem _ k = Inl TypeError"

text \<open>\<^verbatim>\<open>x.get(key, default)\<close>: only a dictionary has the method.\<close>

fun py_get :: "pyval \<Rightarrow> string \<Rightarrow> pyval \<Rightarrow> exn + pyval" where
  "py_get (PDict d) k dflt = (case map_of d k of None \<Rightarrow> Inr dflt | Some v \<Rightarrow> Inr v)"
| "py_get _ k dflt = Inl AttributeError"

text \<open>
  \<^verbatim>\<open>int(x, 16)\<close>. With an explicit base the argument must be text or bytes. The text
  may have white space on both sides, a sign, the prefix \<^verbatim>\<open>0x\<close> or \<^verbatim>\<open>0X\<close> (followed by
  at most one underscore), then hexadecimal digits with single underscores between them.
\<close>

definition hex_digit :: "char \<Rightarrow> nat option" where
  "hex_digit c =
     (let n = (of_char c :: nat) in
      if 48 \<le> n \<and> n \<le> 57 then Some (n - 48)
      else if 97 \<le> n \<and> n \<le> 102 then Some (n - 87)
      else if 65 \<le> n \<and> n \<le> 70 then Some (n - 55)
      else None)"

text \<open>White space of bytes, and of text (which adds the 8-bit characters NEL and NBSP).\<close>

definition ascii_space :: "char \<Rightarrow> bool" where
  "ascii_space c \<longleftrightarrow> (of_char c :: nat) \<in> {9, 10, 11, 12, 13, 32}"

definition text_space :: "char \<Rightarrow> bool" where
  "text_space c \<longleftrightarrow> (of_char c :: nat) \<in> {9, 10, 11, 12, 13, 32, 133, 160}"

text \<open>
  The digit scan: \<open>prev_us\<close> says that the previous character was an underscore,
  \<open>moved\<close> that a character was consumed, \<open>acc\<close> is the value so far. The result is the
  value and the rest of the text, or \<open>None\<close> for a doubled or trailing underscore.
\<close>

fun scan_hex :: "bool \<Rightarrow> bool \<Rightarrow> nat \<Rightarrow> string \<Rightarrow> (bool \<times> nat \<times> string) option" where
  "scan_hex prev_us moved acc [] = (if prev_us then None else Some (moved, acc, []))"
| "scan_hex prev_us moved acc (c # cs) =
     (if c = CHR ''_'' then (if prev_us then None else scan_hex True True acc cs)
      else case hex_digit c of
             Some d \<Rightarrow> scan_hex False True (16 * acc + d) cs
           | None \<Rightarrow> (if prev_us then None else Some (moved, acc, c # cs)))"

definition skip_sign :: "string \<Rightarrow> int \<times> string" where
  "skip_sign s =
     (case s of
        [] \<Rightarrow> (1, s)
      | c # r \<Rightarrow> if c = CHR ''+'' then (1, r) else if c = CHR ''-'' then (- 1, r) else (1, s))"

definition skip_prefix :: "string \<Rightarrow> string" where
  "skip_prefix s =
     (case s of
        a # b # r \<Rightarrow>
          if a = CHR ''0'' \<and> (b = CHR ''x'' \<or> b = CHR ''X'')
          then (case r of [] \<Rightarrow> r | u # r' \<Rightarrow> if u = CHR ''_'' then r' else r)
          else s
      | _ \<Rightarrow> s)"

definition long_from_string :: "(char \<Rightarrow> bool) \<Rightarrow> string \<Rightarrow> exn + int" where
  "long_from_string space s =
     (let (sign, s2) = skip_sign (dropWhile space s);
          s3 = skip_prefix s2
      in if s3 \<noteq> [] \<and> hd s3 = CHR ''_'' then Inl ValueError
         else case scan_hex False False 0 s3 of
                None \<Rightarrow> Inl ValueError
              | Some (moved, n, rest) \<Rightarrow>
                  if \<not> moved \<or> dropWhile space rest \<noteq> [] then Inl ValueError
                  else Inr (sign * int n))"

fun py_int16 :: "pyval \<Rightarrow> exn + int" where
  "py_int16 (PStr s) = long_from_string text_space s"
| "py_int16 (PBytes b) = long_from_string ascii_space (map (\<lambda>w. char_of (unat w)) b)"
| "py_int16 _ = Inl TypeError"

text \<open>
  Iteration (\<^verbatim>\<open>for e in value\<close>): a list gives its elements, a dictionary its keys,
  text its characters, bytes their values; nothing else can be iterated.
\<close>

fun py_iter :: "pyval \<Rightarrow> exn + pyval list" where
  "py_iter (PList xs) = Inr xs"
| "py_iter (PDict d) = Inr (map (\<lambda>kv. PStr (fst kv)) d)"
| "py_iter (PStr s) = Inr (map (\<lambda>c. PStr [c]) s)"
| "py_iter (PBytes b) = Inr (map (\<lambda>w. PInt (uint w)) b)"
| "py_iter _ = Inl TypeError"

text \<open>
  \<^verbatim>\<open>bytes(x)\<close>: bytes are copied, an integer \<open>n\<close> gives \<open>n\<close> zero bytes (a Boolean
  counts as 0 or 1), text is refused, and any other iterable must consist of integers
  from 0 to 255; the first offending element decides the exception. The limits
  on the size of the result (the errors for an integer too large to allocate) are
  left out.
\<close>

fun py_byte :: "pyval \<Rightarrow> exn + 8 word" where
  "py_byte (PInt n) = (if 0 \<le> n \<and> n < 256 then Inr (word_of_int n) else Inl ValueError)"
| "py_byte (PBool b) = Inr (if b then 1 else 0)"
| "py_byte _ = Inl TypeError"

fun bytes_of_items :: "pyval list \<Rightarrow> exn + 8 word list" where
  "bytes_of_items [] = Inr []"
| "bytes_of_items (x # xs) =
     (case py_byte x of
        Inl e \<Rightarrow> Inl e
      | Inr w \<Rightarrow> (case bytes_of_items xs of Inl e \<Rightarrow> Inl e | Inr ws \<Rightarrow> Inr (w # ws)))"

fun py_bytes :: "pyval \<Rightarrow> exn + 8 word list" where
  "py_bytes (PBytes b) = Inr b"
| "py_bytes (PStr s) = Inl TypeError"
| "py_bytes (PInt n) = (if n < 0 then Inl ValueError else Inr (replicate (nat n) 0))"
| "py_bytes (PBool b) = Inr (replicate (if b then 1 else 0) 0)"
| "py_bytes (PList xs) = bytes_of_items xs"
| "py_bytes (PDict d) = bytes_of_items (map (\<lambda>kv. PStr (fst kv)) d)"
| "py_bytes _ = Inl TypeError"

section \<open>The event dispatcher\<close>

text \<open>
  \<^verbatim>\<open>_frida_callback(notify_oep_reached, message, _data)\<close>. The callback of the caller
  is any action: it may record, raise, or do nothing. The final
  \<^verbatim>\<open>raise NotImplementedError\<close> is reached from the two places that fall through.
\<close>

definition unknown_message :: "unit io" where
  "unknown_message = io_raise (NotImplementedError ''Unknown message received'')"

definition frida_callback :: "(int \<Rightarrow> int \<Rightarrow> unit io) \<Rightarrow> pydict \<Rightarrow> pyval \<Rightarrow> unit io" where
  "frida_callback notify_oep_reached message data =
     io_bind (lift (py_getitem (PDict message) ''type'')) (\<lambda>msg_type.
       if msg_type = PStr ''error'' then
         io_bind (log_error (PDict message)) (\<lambda>_.
         io_bind (lift (py_getitem (PDict message) ''stack'')) (\<lambda>stack.
         log_error stack))
       else if msg_type = PStr ''send'' then
         io_bind (lift (py_getitem (PDict message) ''payload'')) (\<lambda>payload.
         io_bind (lift (py_get payload ''event'' (PStr ''''))) (\<lambda>event.
           if event = PStr ''oep_reached'' then
             io_bind (lift (py_getitem payload ''BASE'')) (\<lambda>base_text.
             io_bind (lift (py_int16 base_text)) (\<lambda>base.
             io_bind (lift (py_getitem payload ''OEP'')) (\<lambda>oep_text.
             io_bind (lift (py_int16 oep_text)) (\<lambda>oep.
             notify_oep_reached base oep))))
           else unknown_message))
       else unknown_message)"

section \<open>The process controller\<close>

text \<open>
  The mapping from address to export entry, in insertion order. Storing under a key
  that is present replaces the entry in place, as a Python dictionary does.
\<close>

type_synonym exports = "(int \<times> pyval) list"

text \<open>
  Modelled from the spec: the base class \<^verbatim>\<open>ProcessController\<close> (module
  \<^verbatim>\<open>process_control\<close>) is not among the sources. Following the ProcessIdentity of
  the specification its constructor stores the process id, the main module name, the
  architecture, the pointer size, the page size and the ranges of the main module, and
  does nothing else. \<^verbatim>\<open>FridaProcessController\<close> adds the remote procedure surface (the
  \<^verbatim>\<open>exports\<close> of the script, identified with the script), the session and the cache.
\<close>

record controller =
  pid :: pyval
  main_module_name :: string
  architecture :: pyval
  pointer_size :: pyval
  page_size :: pyval
  main_module_ranges :: pyval
  frida_rpc :: pyval
  frida_session :: pyval
  exported_functions_cache :: "exports option"

text \<open>
  \<^verbatim>\<open>FridaProcessController.__init__\<close>: the four queries are the arguments of the call
  of the base constructor, evaluated from left to right.
\<close>

definition FridaProcessController :: "env \<Rightarrow> pyval \<Rightarrow> string \<Rightarrow> pyval \<Rightarrow> pyval \<Rightarrow> controller io" where
  "FridaProcessController env pid' main_module_name' frida_session' frida_script =
     io_bind (perform env (Rpc frida_script ''get_architecture'' [])) (\<lambda>arch.
     io_bind (perform env (Rpc frida_script ''get_pointer_size'' [])) (\<lambda>psize.
     io_bind (perform env (Rpc frida_script ''get_page_size'' [])) (\<lambda>pgsize.
     io_bind (perform env (Rpc frida_script ''enumerate_module_ranges'' [PStr main_module_name'])) (\<lambda>ranges.
     io_return \<lparr>pid = pid', main_module_name = main_module_name', architecture = arch,
       pointer_size = psize, page_size = pgsize, main_module_ranges = ranges,
       frida_rpc = frida_script, frida_session = frida_session',
       exported_functions_cache = None\<rparr>))))"

text \<open>The key of one export entry: \<^verbatim>\<open>int(e["address"], 16)\<close>.\<close>

definition export_key :: "pyval \<Rightarrow> exn + int" where
  "export_key e = (case py_getitem e ''address'' of Inl x \<Rightarrow> Inl x | Inr a \<Rightarrow> py_int16 a)"

text \<open>
  The dictionary comprehension \<^verbatim>\<open>{int(e["address"], 16): e for e in value}\<close>, with the
  dictionary built so far as accumulator. The first entry whose key cannot be
  computed raises, and the dictionary under construction is lost.
\<close>

fun exports_dict :: "pyval list \<Rightarrow> exports \<Rightarrow> exn + exports" where
  "exports_dict [] acc = Inr acc"
| "exports_dict (e # es) acc =
     (case export_key e of
        Inl x \<Rightarrow> Inl x
      | Inr k \<Rightarrow> exports_dict es (AList.update k e acc))"

text \<open>
  The methods of the controller take the controller and the trace and return the
  outcome, the controller and the trace.
\<close>

definition enumerate_exported_functions ::
  "env \<Rightarrow> controller \<Rightarrow> bool \<Rightarrow> trace \<Rightarrow> (exn + exports) \<times> controller \<times> trace" where
  "enumerate_exported_functions env self update_cache tr =
     (if exported_functions_cache self = None \<or> update_cache then
        (case perform env (Rpc (frida_rpc self) ''enumerate_exported_functions'' []) tr of
           (Inl x, tr') \<Rightarrow> (Inl x, self, tr')
         | (Inr val, tr') \<Rightarrow>
             (case py_iter val of
                Inl x \<Rightarrow> (Inl x, self, tr')
              | Inr es \<Rightarrow>
                  (case exports_dict es [] of
                     Inl x \<Rightarrow> (Inl x, self, tr')
                   | Inr d \<Rightarrow> (Inr d, self\<lparr>exported_functions_cache := Some d\<rparr>, tr'))))
      else (Inr (the (exported_functions_cache self)), self, tr))"

definition read_process_memory ::
  "env \<Rightarrow> controller \<Rightarrow> int \<Rightarrow> int \<Rightarrow> trace \<Rightarrow> (exn + 8 word list) \<times> controller \<times> trace" where
  "read_process_memory env self address size' tr =
     (case perform env (Rpc (frida_rpc self) ''read_process_memory'' [PInt address, PInt size']) tr of
        (Inl (RPCException m), tr') \<Rightarrow> (Inl (Exception (RPCException m)), self, tr')
      | (Inl x, tr') \<Rightarrow> (Inl x, self, tr')
      | (Inr v, tr') \<Rightarrow> (py_bytes v, self, tr'))"

definition terminate_process ::
  "env \<Rightarrow> controller \<Rightarrow> trace \<Rightarrow> (exn + unit) \<times> controller \<times> trace" where
  "terminate_process env self tr =
     (case perform env (Frida_kill (pid self)) tr of
        (Inl x, tr') \<Rightarrow> (Inl x, self, tr')
      | (Inr _, tr') \<Rightarrow>
          (case perform env (Session_detach (frida_session self)) tr' of
             (Inl x, tr'') \<Rightarrow> (Inl x, self, tr'')
           | (Inr _, tr'') \<Rightarrow> (Inr (), self, tr'')))"

section \<open>The instrumentation session manager\<close>

text \<open>
  A \<^verbatim>\<open>pathlib.Path\<close> is used through \<^verbatim>\<open>str(exe_path)\<close> and \<^verbatim>\<open>exe_path.name\<close> only.
\<close>

record path =
  path_str :: string
  path_name :: string

text \<open>
  \<^verbatim>\<open>spawn_and_instrument(exe_path, notify_oep_reached)\<close>. The handler registered with
  \<^verbatim>\<open>script.on('message', ...)\<close> is the dispatcher bound to \<open>notify_oep_reached\<close>; the
  registration itself is a call of the instrumentation library.
\<close>

definition spawn_and_instrument :: "env \<Rightarrow> path \<Rightarrow> (int \<Rightarrow> int \<Rightarrow> unit io) \<Rightarrow> controller io" where
  "spawn_and_instrument env exe_path notify_oep_reached =
     (let main_module_name' = path_name exe_path in
      io_bind (perform env (Frida_spawn [path_str exe_path])) (\<lambda>pid'.
      io_bind (perform env (Frida_attach pid')) (\<lambda>session.
      io_bind (perform env (Resources_read ''unlicense.resources'' ''frida.js'')) (\<lambda>frida_js.
      io_bind (perform env (Session_create_script session frida_js)) (\<lambda>script.
      io_bind (perform env (Script_on script ''message'')) (\<lambda>_.
      io_bind (perform env (Script_load script)) (\<lambda>_.
      io_bind (FridaProcessController env pid' main_module_name' session script) (\<lambda>process_controller.
      io_bind (perform env (Rpc script ''setup_oep_tracing'' [PStr (path_name exe_path)])) (\<lambda>_.
      io_bind (perform env (Frida_resume pid')) (\<lambda>_.
      io_return process_controller))))))))))"

section \<open>The statements of the specification\<close>

text \<open>
  The specification speaks of an export's textual hexadecimal address, such as
  \<^verbatim>\<open>0x1000\<close>, parsed to an unsigned integer: the prefix \<^verbatim>\<open>0x\<close> and at least one
  hexadecimal digit, read in base 16. This is the reading of the specification, set
  beside \<open>py_int16\<close>, which is what the code calls.
\<close>

definition hex_digit_value :: "char \<Rightarrow> nat option" where
  "hex_digit_value = map_of (zip ''0123456789abcdef'' [0..<16] @ zip ''ABCDEF'' [10..<16])"

definition hex_address_value :: "string \<Rightarrow> nat option" where
  "hex_address_value s =
     (case s of
        a # b # ds \<Rightarrow>
          if a = CHR ''0'' \<and> b = CHR ''x'' \<and> ds \<noteq> [] \<and> list_all (\<lambda>c. hex_digit_value c \<noteq> None) ds
          then Some (foldl (\<lambda>n c. 16 * n + the (hex_digit_value c)) 0 ds)
          else None
      | _ \<Rightarrow> None)"

text \<open>The address of an export entry \<^verbatim>\<open>{address: hex-string, name, ...}\<close>.\<close>

definition export_address :: "pyval \<Rightarrow> nat option" where
  "export_address e =
     (case e of
        PDict d \<Rightarrow> (case map_of d ''address'' of Some (PStr s) \<Rightarrow> hex_address_value s | _ \<Rightarrow> None)
      | _ \<Rightarrow> None)"

text \<open>
  A sequence of calls \<^verbatim>\<open>enumerate_exported_functions(False)\<close>, one for each element of
  \<open>envs\<close>, which gives the environment at the time of the call. The results are
  collected in order.
\<close>

fun repeat_enumerate ::
  "env list \<Rightarrow> controller \<Rightarrow> trace \<Rightarrow> (exn + exports) list \<times> controller \<times> trace" where
  "repeat_enumerate [] self tr = ([], self, tr)"
| "repeat_enumerate (env # envs) self tr =
     (case enumerate_exported_functions env self False tr of
        (r, self', tr') \<Rightarrow>
          (case repeat_enumerate envs self' tr' of
             (rs, self'', tr'') \<Rightarrow> (r # rs, self'', tr'')))"

text \<open>
  Steps 2 to 9 of \<^verbatim>\<open>spawn_and_instrument\<close> in the order of the specification: spawn,
  attach, load the agent payload into the session, register the message sink,
  activate the agent, query the identity, arm the tracing, resume.
\<close>

definition spawn_steps :: "path \<Rightarrow> pyval \<Rightarrow> pyval \<Rightarrow> pyval \<Rightarrow> pyval \<Rightarrow> call list" where
  "spawn_steps exe_path pid' session frida_js script =
     [Frida_spawn [path_str exe_path],
      Frida_attach pid',
      Resources_read ''unlicense.resources'' ''frida.js'',
      Session_create_script session frida_js,
      Script_on script ''message'',
      Script_load script,
      Rpc script ''get_architecture'' [],
      Rpc script ''get_pointer_size'' [],
      Rpc script ''get_page_size'' [],
      Rpc script ''enumerate_module_ranges'' [PStr (path_name exe_path)],
      Rpc script ''setup_oep_tracing'' [PStr (path_name exe_path)],
      Frida_resume pid']"

section \<open>Example environments\<close>

text \<open>
  \<open>agent_env\<close> is a target in which every call succeeds: the process gets the id 4242,
  the module exports one function at \<^verbatim>\<open>0x1000\<close>, and memory reads give two bytes.
  In \<open>broken_env\<close> every remote procedure reports a failure and every call of the
  instrumentation library raises.
\<close>

definition agent_env :: env where
  "agent_env tr c =
     (case c of
        Frida_spawn _ \<Rightarrow> Inr (PInt 4242)
      | Frida_attach _ \<Rightarrow> Inr (PHandle 1)
      | Resources_read _ _ \<Rightarrow> Inr (PStr ''rpc.exports = {};'')
      | Session_create_script _ _ \<Rightarrow> Inr (PHandle 2)
      | Rpc _ m _ \<Rightarrow>
          if m = ''enumerate_exported_functions''
          then Inr (PList [PDict [(''address'', PStr ''0x1000''), (''name'', PStr ''Sleep'')]])
          else if m = ''read_process_memory'' then Inr (PBytes [0x4D, 0x5A])
          else if m = ''get_architecture'' then Inr (PStr ''ia32'')
          else if m = ''get_pointer_size'' then Inr (PInt 4)
          else if m = ''get_page_size'' then Inr (PInt 4096)
          else if m = ''enumerate_module_ranges'' then Inr (PList [])
          else Inr PNone
      | _ \<Rightarrow> Inr PNone)"

definition broken_env :: env where
  "broken_env tr c =
     (case c of
        Rpc _ _ _ \<Rightarrow> Inl (RPCException ''access violation'')
      | _ \<Rightarrow> Inl (ExternalError ''ProcessNotFoundError''))"

text \<open>
  In \<open>detached_env\<close> the script has been destroyed: every call raises the
  \<^verbatim>\<open>InvalidOperationError\<close> of the instrumentation library, which is not an
  \<^verbatim>\<open>RPCException\<close>.
\<close>

definition detached_env :: env where
  "detached_env tr c = Inl (ExternalError ''InvalidOperationError'')"

definition attached_controller :: controller where
  "attached_controller =
     \<lparr>pid = PInt 4242, main_module_name = ''packed.exe'', architecture = PStr ''ia32'',
      pointer_size = PInt 4, page_size = PInt 4096, main_module_ranges = PList [],
      frida_rpc = PHandle 2, frida_session = PHandle 1,
      exported_functions_cache = None\<rparr>"

section \<open>Auxiliary facts\<close>

lemmas py_int16_defs = long_from_string_def skip_sign_def skip_prefix_def text_space_def
  ascii_space_def hex_digit_def

lemma io_bind_lift:
  "io_bind (lift (Inr x)) f = f x"
  "io_bind (lift (Inl e)) f = io_raise e"
  by (rule ext; simp add: io_bind_def lift_def io_raise_def)+

lemma io_bind_perform:
  "io_bind (perform env c) f tr =
     (case env tr c of Inl e \<Rightarrow> (Inl e, tr @ [c]) | Inr v \<Rightarrow> f v (tr @ [c]))"
  by (simp add: io_bind_def perform_def split: sum.splits)

lemma io_bind_assoc: "io_bind (io_bind m f) g = io_bind m (\<lambda>x. io_bind (f x) g)"
  by (rule ext) (simp add: io_bind_def split: prod.splits sum.splits)

lemma io_bind_return: "io_bind (io_return x) f = f x"
  by (rule ext) (simp add: io_bind_def io_return_def)

subsection \<open>The dispatcher on the recognised shapes\<close>

lemma error_message_with_stack:
  "map_of message ''type'' = Some (PStr ''error'') \<Longrightarrow> map_of message ''stack'' = Some st \<Longrightarrow>
   frida_callback notify message data tr =
     (Inr (), tr @ [Log_error (PDict message), Log_error st])"
  by (simp add: frida_callback_def io_bind_def lift_def log_error_def)

lemma unknown_message_raises:
  "map_of message ''type'' = Some t \<Longrightarrow> t \<noteq> PStr ''error'' \<Longrightarrow>
   t \<noteq> PStr ''send'' \<or>
     (\<exists>d. map_of message ''payload'' = Some (PDict d) \<and>
          map_of d ''event'' \<noteq> Some (PStr ''oep_reached'')) \<Longrightarrow>
   frida_callback notify message data tr =
     (Inl (NotImplementedError ''Unknown message received''), tr)"
  by (auto simp add: frida_callback_def io_bind_def lift_def unknown_message_def io_raise_def
      split: option.splits)

subsection \<open>The cache\<close>

lemma enumerate_cached:
  "exported_functions_cache self = Some m \<Longrightarrow>
   enumerate_exported_functions env self False tr = (Inr m, self, tr)"
  by (simp add: enumerate_exported_functions_def)

lemma enumerate_populates:
  "enumerate_exported_functions env self b tr = (Inr m, self', tr') \<Longrightarrow>
   exported_functions_cache self' = Some m"
  by (auto simp: enumerate_exported_functions_def perform_def split: if_splits sum.splits)

lemma repeat_cached:
  "exported_functions_cache self = Some m \<Longrightarrow>
   repeat_enumerate envs self tr = (replicate (length envs) (Inr m), self, tr)"
  by (induction envs) (simp_all add: enumerate_cached)

subsection \<open>Hexadecimal addresses\<close>

lemma hex_digit_value_eq: "hex_digit_value c = Some d \<Longrightarrow> hex_digit c = Some d"
  unfolding hex_digit_value_def
  by (drule map_of_SomeD) (auto simp: hex_digit_def upt_rec)

lemma hex_digit_value_not_us: "hex_digit_value c \<noteq> None \<Longrightarrow> c \<noteq> CHR ''_''"
  by (auto simp: hex_digit_value_def)

lemma scan_hex_digits:
  "list_all (\<lambda>c. hex_digit_value c \<noteq> None) ds \<Longrightarrow>
   scan_hex False moved acc ds =
     Some (moved \<or> ds \<noteq> [], foldl (\<lambda>n c. 16 * n + the (hex_digit_value c)) acc ds, [])"
proof (induction ds arbitrary: moved acc)
  case Nil
  then show ?case by simp
next
  case (Cons c ds)
  then obtain d where d: "hex_digit_value c = Some d" by auto
  have "c \<noteq> CHR ''_''" using d hex_digit_value_not_us by auto
  with Cons d show ?case by (simp add: hex_digit_value_eq)
qed

text \<open>On the addresses of the specification \<^verbatim>\<open>int(s, 16)\<close> is the specified value.\<close>

lemma py_int16_hex_address:
  assumes "hex_address_value s = Some n"
  shows "py_int16 (PStr s) = Inr (int n)"
proof -
  from assms obtain ds where s: "s = CHR ''0'' # CHR ''x'' # ds" and ne: "ds \<noteq> []"
    and all: "list_all (\<lambda>c. hex_digit_value c \<noteq> None) ds"
    and n: "n = foldl (\<lambda>n c. 16 * n + the (hex_digit_value c)) 0 ds"
    by (auto simp: hex_address_value_def split: list.splits if_splits)
  from ne obtain c cs where ds: "ds = c # cs" by (cases ds) auto
  have c: "c \<noteq> CHR ''_''" using all ds hex_digit_value_not_us by auto
  have sp: "\<not> text_space CHR ''0''" by (simp add: text_space_def)
  have "skip_prefix (CHR ''0'' # CHR ''x'' # ds) = ds"
    using c ds by (simp add: skip_prefix_def)
  moreover have "skip_sign (dropWhile text_space s) = (1, s)"
    using sp s by (simp add: skip_sign_def)
  ultimately show ?thesis
    using scan_hex_digits [OF all, of False 0] s ne c ds n
    by (simp add: long_from_string_def)
qed

lemma export_key_address:
  "export_address e = Some n \<Longrightarrow> export_key e = Inr (int n)"
  using py_int16_hex_address
  by (auto simp: export_address_def export_key_def simp del: py_int16.simps
           split: pyval.splits option.splits)

lemma set_alist_update_subset:
  "set (AList.update k v al) \<subseteq> insert (k, v) (set al)"
  by (induction al) auto

text \<open>
  The comprehension over entries with well-formed addresses: it succeeds, a later
  entry replaces an earlier one with the same address, and the keys stay distinct.
\<close>

lemma exports_dict_map_of:
  "list_all (\<lambda>e. export_address e \<noteq> None) es \<Longrightarrow>
   \<exists>m. exports_dict es acc = Inr m \<and>
       map_of m = map_of acc ++ map_of (rev (map (\<lambda>e. (int (the (export_address e)), e)) es)) \<and>
       fst ` set m = fst ` set acc \<union> (\<lambda>e. int (the (export_address e))) ` set es \<and>
       set m \<subseteq> set acc \<union> (\<lambda>e. (int (the (export_address e)), e)) ` set es \<and>
       (distinct (map fst acc) \<longrightarrow> distinct (map fst m))"
proof (induction es arbitrary: acc)
  case Nil
  then show ?case by simp
next
  case (Cons e es)
  then obtain n where n: "export_address e = Some n" by auto
  let ?acc = "AList.update (int n) e acc"
  from Cons.prems have "list_all (\<lambda>e. export_address e \<noteq> None) es" by simp
  from Cons.IH [OF this, of ?acc] obtain m where m: "exports_dict es ?acc = Inr m"
    and mo: "map_of m = map_of ?acc ++ map_of (rev (map (\<lambda>e. (int (the (export_address e)), e)) es))"
    and dom: "fst ` set m = fst ` set ?acc \<union> (\<lambda>e. int (the (export_address e))) ` set es"
    and sub: "set m \<subseteq> set ?acc \<union> (\<lambda>e. (int (the (export_address e)), e)) ` set es"
    and dist: "distinct (map fst ?acc) \<longrightarrow> distinct (map fst m)"
    by blast
  have "exports_dict (e # es) acc = Inr m"
    using m n by (simp add: export_key_address)
  moreover have "map_of m = map_of acc ++ map_of (rev (map (\<lambda>e. (int (the (export_address e)), e)) (e # es)))"
    using mo n by (simp add: update_conv' map_add_upd_left)
  moreover have "fst ` set m = fst ` set acc \<union> (\<lambda>e. int (the (export_address e))) ` set (e # es)"
    using dom n by (auto simp: dom_update)
  moreover have "set m \<subseteq> set acc \<union> (\<lambda>e. (int (the (export_address e)), e)) ` set (e # es)"
    using sub n set_alist_update_subset [of "int n" e acc] by auto
  moreover have "distinct (map fst acc) \<longrightarrow> distinct (map fst m)"
    using dist by (simp add: distinct_update)
  ultimately show ?case by blast
qed

subsection \<open>Memory reads\<close>

text \<open>Whatever the outcome, a read makes one remote call and leaves the controller as it was.\<close>

lemma read_keeps_controller:
  "read_process_memory env self address sz tr = (r, self', tr') \<Longrightarrow>
   self' = self \<and> tr' = tr @ [Rpc (frida_rpc self) ''read_process_memory'' [PInt address, PInt sz]]"
  by (auto simp add: read_process_memory_def perform_def split: sum.splits exn.splits)

section \<open>The claims\<close>

subsection \<open>Event dispatcher\<close>

text \<open>
  Claim C1, as amended. On the message
  \<^verbatim>\<open>{type:"send", payload:{event:"oep_reached", BASE:"0x400000", OEP:"0x401234"}}\<close>
  the dispatcher does exactly what one call of the callback at the pair
  (4194304, 4198964) does, for every callback: it is invoked once with that pair, and
  the dispatcher returns when the callback returns. With the callback of the caller
  the trace grows by that single invocation.
\<close>

theorem oep_event_decoding:
  "frida_callback notify
     [(''type'', PStr ''send''),
      (''payload'', PDict [(''event'', PStr ''oep_reached''), (''BASE'', PStr ''0x400000''),
                           (''OEP'', PStr ''0x401234'')])] data
     = notify 4194304 4198964 \<and>
   frida_callback (caller_callback env)
     [(''type'', PStr ''send''),
      (''payload'', PDict [(''event'', PStr ''oep_reached''), (''BASE'', PStr ''0x400000''),
                           (''OEP'', PStr ''0x401234'')])] data tr
     = ((case env tr (Notify_oep_reached 4194304 4198964) of Inl e \<Rightarrow> Inl e | Inr _ \<Rightarrow> Inr ()),
        tr @ [Notify_oep_reached 4194304 4198964])"
  by (simp add: frida_callback_def io_bind_lift py_int16_defs caller_callback_def
      io_bind_perform io_return_def split: sum.splits)

text \<open>
  The pair of claim C1 as stated, (4194304, 4199476), is not what the callback
  receives: \<^verbatim>\<open>0x401234\<close> is 4198964.
\<close>

theorem oep_event_claimed_pair_counterexample:
  "frida_callback (caller_callback agent_env)
     [(''type'', PStr ''send''),
      (''payload'', PDict [(''event'', PStr ''oep_reached''), (''BASE'', PStr ''0x400000''),
                           (''OEP'', PStr ''0x401234'')])] PNone []
     \<noteq> (Inr (), [Notify_oep_reached 4194304 4199476])"
  by (simp add: frida_callback_def io_bind_lift py_int16_defs caller_callback_def
      io_bind_perform io_return_def agent_env_def)

text \<open>
  Claim C5 at the message \<^verbatim>\<open>{type:"error"}\<close>, which has no stack: the message is
  logged, then the lookup of the stack raises \<^verbatim>\<open>KeyError\<close>, which escapes the
  dispatcher. The callback is not invoked.
\<close>

theorem error_without_stack_raises:
  "frida_callback notify [(''type'', PStr ''error'')] data tr =
     (Inl (KeyError ''stack''), tr @ [Log_error (PDict [(''type'', PStr ''error'')])])"
  by (simp add: frida_callback_def io_bind_def lift_def log_error_def)

text \<open>
  Claim C6 at the message \<^verbatim>\<open>{type:"send"}\<close>, which has no payload: the lookup of the
  payload raises \<^verbatim>\<open>KeyError\<close> instead of the \<^verbatim>\<open>NotImplementedError\<close> of an unknown
  message. The callback is not invoked.
\<close>

theorem send_without_payload_raises:
  "frida_callback notify [(''type'', PStr ''send'')] data tr = (Inl (KeyError ''payload''), tr)"
  by (simp add: frida_callback_def io_bind_def lift_def)

text \<open>
  Claim C10. A message of kind \<^verbatim>\<open>"error"\<close> without the field \<^verbatim>\<open>stack\<close>: after the
  message itself has been logged, the access \<^verbatim>\<open>message['stack']\<close> raises a lookup
  error, and the dispatcher ends with that error instead of returning.
\<close>

theorem error_message_missing_stack:
  "map_of message ''type'' = Some (PStr ''error'') \<Longrightarrow> map_of message ''stack'' = None \<Longrightarrow>
   frida_callback notify message data tr =
     (Inl (KeyError ''stack''), tr @ [Log_error (PDict message)])"
  by (simp add: frida_callback_def io_bind_def lift_def log_error_def)

theorem error_message_missing_stack_witness:
  "map_of [(''type'', PStr ''error''), (''description'', PStr ''ReferenceError'')] ''type''
     = Some (PStr ''error'') \<and>
   map_of [(''type'', PStr ''error''), (''description'', PStr ''ReferenceError'')] ''stack'' = None \<and>
   frida_callback (caller_callback agent_env)
     [(''type'', PStr ''error''), (''description'', PStr ''ReferenceError'')] PNone [] =
     (Inl (KeyError ''stack''),
      [Log_error (PDict [(''type'', PStr ''error''), (''description'', PStr ''ReferenceError'')])])"
  using error_message_missing_stack
    [of "[(''type'', PStr ''error''), (''description'', PStr ''ReferenceError'')]"
        "caller_callback agent_env" PNone "[]"]
  by simp

subsection \<open>Exported functions\<close>

text \<open>
  Claim C2. Once a call of \<^verbatim>\<open>enumerate_exported_functions\<close> has returned a mapping
  (a first call or a forced refresh), every sequence of calls without refresh returns
  that mapping each time, whatever the environment is at each call, and leaves the
  controller and the trace as they were: no remote enumeration is made.
\<close>

theorem cached_calls_return_cache:
  "enumerate_exported_functions env self b tr = (Inr m, self', tr') \<Longrightarrow>
   repeat_enumerate envs self' tr' = (replicate (length envs) (Inr m), self', tr')"
  using enumerate_populates repeat_cached by blast

theorem cached_calls_return_cache_witness:
  "enumerate_exported_functions agent_env attached_controller True [] =
     (Inr [(4096, PDict [(''address'', PStr ''0x1000''), (''name'', PStr ''Sleep'')])],
      attached_controller\<lparr>exported_functions_cache :=
        Some [(4096, PDict [(''address'', PStr ''0x1000''), (''name'', PStr ''Sleep'')])]\<rparr>,
      [Rpc (PHandle 2) ''enumerate_exported_functions'' []]) \<and>
   repeat_enumerate [broken_env, agent_env, broken_env]
     (attached_controller\<lparr>exported_functions_cache :=
        Some [(4096, PDict [(''address'', PStr ''0x1000''), (''name'', PStr ''Sleep'')])]\<rparr>)
     [Rpc (PHandle 2) ''enumerate_exported_functions'' []] =
     (replicate 3 (Inr [(4096, PDict [(''address'', PStr ''0x1000''), (''name'', PStr ''Sleep'')])]),
      attached_controller\<lparr>exported_functions_cache :=
        Some [(4096, PDict [(''address'', PStr ''0x1000''), (''name'', PStr ''Sleep'')])]\<rparr>,
      [Rpc (PHandle 2) ''enumerate_exported_functions'' []])"
proof -
  let ?e = "PDict [(''address'', PStr ''0x1000''), (''name'', PStr ''Sleep'')]"
  have run: "enumerate_exported_functions agent_env attached_controller True [] =
     (Inr [(4096, ?e)], attached_controller\<lparr>exported_functions_cache := Some [(4096, ?e)]\<rparr>,
      [Rpc (PHandle 2) ''enumerate_exported_functions'' []])"
    by (simp add: enumerate_exported_functions_def perform_def agent_env_def
        attached_controller_def export_key_def py_int16_defs)
  from cached_calls_return_cache [OF run, of "[broken_env, agent_env, broken_env]"] run
  show ?thesis by (simp add: numeral_3_eq_3)
qed

text \<open>
  Claim C3, as amended. A call with \<^verbatim>\<open>update_cache=True\<close> makes exactly one remote
  enumeration, whatever the cache holds. When the enumeration answers and the mapping
  is built from the answer, that mapping becomes the cache and is returned. When the
  remote call raises, the answer cannot be iterated, or the key of an entry cannot be
  computed, the exception goes to the caller and the controller, with its cache, is
  left as it was.
\<close>

theorem forced_refresh_requeries:
  "snd (snd (enumerate_exported_functions env self True tr)) =
     tr @ [Rpc (frida_rpc self) ''enumerate_exported_functions'' []] \<and>
   (\<forall>val es m. env tr (Rpc (frida_rpc self) ''enumerate_exported_functions'' []) = Inr val \<and>
       py_iter val = Inr es \<and> exports_dict es [] = Inr m \<longrightarrow>
     enumerate_exported_functions env self True tr =
       (Inr m, self\<lparr>exported_functions_cache := Some m\<rparr>,
        tr @ [Rpc (frida_rpc self) ''enumerate_exported_functions'' []])) \<and>
   (\<forall>x. env tr (Rpc (frida_rpc self) ''enumerate_exported_functions'' []) = Inl x \<longrightarrow>
     enumerate_exported_functions env self True tr =
       (Inl x, self, tr @ [Rpc (frida_rpc self) ''enumerate_exported_functions'' []])) \<and>
   (\<forall>val x. env tr (Rpc (frida_rpc self) ''enumerate_exported_functions'' []) = Inr val \<and>
       py_iter val = Inl x \<longrightarrow>
     enumerate_exported_functions env self True tr =
       (Inl x, self, tr @ [Rpc (frida_rpc self) ''enumerate_exported_functions'' []])) \<and>
   (\<forall>val es x. env tr (Rpc (frida_rpc self) ''enumerate_exported_functions'' []) = Inr val \<and>
       py_iter val = Inr es \<and> exports_dict es [] = Inl x \<longrightarrow>
     enumerate_exported_functions env self True tr =
       (Inl x, self, tr @ [Rpc (frida_rpc self) ''enumerate_exported_functions'' []]))"
  by (auto simp: enumerate_exported_functions_def perform_def split: sum.splits)

theorem forced_refresh_requeries_witness:
  "enumerate_exported_functions agent_env
     (attached_controller\<lparr>exported_functions_cache := Some [(1, PNone)]\<rparr>) True [] =
     (Inr [(4096, PDict [(''address'', PStr ''0x1000''), (''name'', PStr ''Sleep'')])],
      attached_controller\<lparr>exported_functions_cache :=
        Some [(4096, PDict [(''address'', PStr ''0x1000''), (''name'', PStr ''Sleep'')])]\<rparr>,
      [Rpc (PHandle 2) ''enumerate_exported_functions'' []])"
proof -
  let ?e = "PDict [(''address'', PStr ''0x1000''), (''name'', PStr ''Sleep'')]"
  let ?self = "attached_controller\<lparr>exported_functions_cache := Some [(1, PNone)]\<rparr>"
  have h: "agent_env [] (Rpc (frida_rpc ?self) ''enumerate_exported_functions'' []) = Inr (PList [?e]) \<and>
      py_iter (PList [?e]) = Inr [?e] \<and> exports_dict [?e] [] = Inr [(4096, ?e)]"
    by (simp add: agent_env_def export_key_def py_int16_defs)
  from forced_refresh_requeries [of agent_env ?self "[]"] h
  have "enumerate_exported_functions agent_env ?self True [] =
       (Inr [(4096, ?e)], ?self\<lparr>exported_functions_cache := Some [(4096, ?e)]\<rparr>,
        [] @ [Rpc (frida_rpc ?self) ''enumerate_exported_functions'' []])"
    by blast
  then show ?thesis by (simp add: attached_controller_def)
qed

text \<open>
  Claim C3 as stated says that a forced refresh always replaces the cache and
  returns the new mapping. When the remote enumeration reports a failure, the call
  raises and the cache that was present stays.
\<close>

theorem forced_refresh_failure_counterexample:
  "enumerate_exported_functions broken_env
     (attached_controller\<lparr>exported_functions_cache := Some [(1, PNone)]\<rparr>) True [] =
     (Inl (RPCException ''access violation''),
      attached_controller\<lparr>exported_functions_cache := Some [(1, PNone)]\<rparr>,
      [Rpc (PHandle 2) ''enumerate_exported_functions'' []])"
  by (simp add: enumerate_exported_functions_def perform_def broken_env_def
      attached_controller_def)

text \<open>
  Claim C4. When a call queries the agent and every entry of the answer carries a
  textual hexadecimal address, the call returns a mapping in which every pair
  \<open>(k, e)\<close> consists of an entry \<open>e\<close> of the answer and the unsigned integer \<open>k\<close> that
  its address denotes; the key of every entry of the answer is present, and among
  entries with the same address the last one is stored. The address \<^verbatim>\<open>0x1000\<close>
  gives the key 4096.
\<close>

theorem export_keys_are_parsed_addresses:
  assumes refresh: "exported_functions_cache self = None \<or> update_cache"
    and answer: "env tr (Rpc (frida_rpc self) ''enumerate_exported_functions'' []) = Inr (PList es)"
    and wf: "list_all (\<lambda>e. export_address e \<noteq> None) es"
  shows "\<exists>m. enumerate_exported_functions env self update_cache tr =
           (Inr m, self\<lparr>exported_functions_cache := Some m\<rparr>,
            tr @ [Rpc (frida_rpc self) ''enumerate_exported_functions'' []]) \<and>
         (\<forall>(k, e) \<in> set m. e \<in> set es \<and> 0 \<le> k \<and> export_address e = Some (nat k)) \<and>
         (\<forall>e \<in> set es. int (the (export_address e)) \<in> fst ` set m) \<and>
         map_of m = map_of (rev (map (\<lambda>e. (int (the (export_address e)), e)) es)) \<and>
         distinct (map fst m)"
proof -
  from exports_dict_map_of [OF wf, of "[]"] obtain m where m: "exports_dict es [] = Inr m"
    and mo: "map_of m = map_of (rev (map (\<lambda>e. (int (the (export_address e)), e)) es))"
    and dom: "fst ` set m = (\<lambda>e. int (the (export_address e))) ` set es"
    and sub: "set m \<subseteq> (\<lambda>e. (int (the (export_address e)), e)) ` set es"
    and dist: "distinct (map fst m)"
    by auto
  have "enumerate_exported_functions env self update_cache tr =
           (Inr m, self\<lparr>exported_functions_cache := Some m\<rparr>,
            tr @ [Rpc (frida_rpc self) ''enumerate_exported_functions'' []])"
    using refresh answer m by (auto simp: enumerate_exported_functions_def perform_def)
  moreover have "\<forall>(k, e) \<in> set m. e \<in> set es \<and> 0 \<le> k \<and> export_address e = Some (nat k)"
  proof (clarify)
    fix k e assume "(k, e) \<in> set m"
    with sub have e: "e \<in> set es" and k: "k = int (the (export_address e))" by auto
    from wf e obtain n where "export_address e = Some n" by (auto simp: list_all_iff)
    with e k show "e \<in> set es \<and> 0 \<le> k \<and> export_address e = Some (nat k)" by simp
  qed
  moreover have "\<forall>e \<in> set es. int (the (export_address e)) \<in> fst ` set m"
    using dom by auto
  ultimately show ?thesis using mo dist by blast
qed

theorem export_keys_are_parsed_addresses_witness:
  "list_all (\<lambda>e. export_address e \<noteq> None)
     [PDict [(''address'', PStr ''0x1000''), (''name'', PStr ''Sleep'')]] \<and>
   (\<exists>m. enumerate_exported_functions agent_env attached_controller False [] =
           (Inr m, attached_controller\<lparr>exported_functions_cache := Some m\<rparr>,
            [Rpc (PHandle 2) ''enumerate_exported_functions'' []]) \<and>
        m = [(4096, PDict [(''address'', PStr ''0x1000''), (''name'', PStr ''Sleep'')])] \<and>
        (\<forall>(k, e) \<in> set m. 0 \<le> k \<and> export_address e = Some (nat k)) \<and>
        distinct (map fst m))"
proof -
  let ?e = "PDict [(''address'', PStr ''0x1000''), (''name'', PStr ''Sleep'')]"
  have a: "export_address ?e = Some 4096"
    by (simp add: export_address_def hex_address_value_def hex_digit_value_def upt_rec)
  have wf: "list_all (\<lambda>e. export_address e \<noteq> None) [?e]" using a by simp
  have r: "exported_functions_cache attached_controller = None \<or> False"
    by (simp add: attached_controller_def)
  have ans: "agent_env [] (Rpc (frida_rpc attached_controller) ''enumerate_exported_functions'' [])
      = Inr (PList [?e])"
    by (simp add: agent_env_def)
  have run: "enumerate_exported_functions agent_env attached_controller False [] =
     (Inr [(4096, ?e)], attached_controller\<lparr>exported_functions_cache := Some [(4096, ?e)]\<rparr>,
      [Rpc (PHandle 2) ''enumerate_exported_functions'' []])"
    by (simp add: enumerate_exported_functions_def perform_def agent_env_def
        attached_controller_def export_key_def py_int16_defs)
  from export_keys_are_parsed_addresses [where self = attached_controller
      and update_cache = False and env = agent_env and tr = "[]" and es = "[?e]", OF r ans wf]
    run wf
  show ?thesis by auto
qed

subsection \<open>Memory reads\<close>

text \<open>
  Claim C7, as amended. When the remote call of \<^verbatim>\<open>read_process_memory\<close> reports a
  failure as an \<^verbatim>\<open>RPCException\<close>, the operation raises the generic exception that
  stands for the remote operation error, with the report as its cause. Any other
  exception of the remote call goes to the caller as it is. In every case one remote
  call is made and the controller, and with it the cache of exported functions, is
  what it was.
\<close>

theorem failed_read_raises_and_keeps_state:
  "(\<forall>msg. env tr (Rpc (frida_rpc self) ''read_process_memory'' [PInt address, PInt sz])
        = Inl (RPCException msg) \<longrightarrow>
     read_process_memory env self address sz tr =
       (Inl (Exception (RPCException msg)), self,
        tr @ [Rpc (frida_rpc self) ''read_process_memory'' [PInt address, PInt sz]])) \<and>
   (\<forall>x. env tr (Rpc (frida_rpc self) ''read_process_memory'' [PInt address, PInt sz]) = Inl x \<and>
        (\<forall>msg. x \<noteq> RPCException msg) \<longrightarrow>
     read_process_memory env self address sz tr =
       (Inl x, self,
        tr @ [Rpc (frida_rpc self) ''read_process_memory'' [PInt address, PInt sz]])) \<and>
   fst (snd (read_process_memory env self address sz tr)) = self \<and>
   exported_functions_cache (fst (snd (read_process_memory env self address sz tr))) =
     exported_functions_cache self \<and>
   snd (snd (read_process_memory env self address sz tr)) =
     tr @ [Rpc (frida_rpc self) ''read_process_memory'' [PInt address, PInt sz]]"
  by (auto simp add: read_process_memory_def perform_def split: sum.splits exn.splits)

theorem failed_read_raises_and_keeps_state_witness:
  "broken_env [] (Rpc (PHandle 2) ''read_process_memory'' [PInt 4096, PInt 16])
     = Inl (RPCException ''access violation'') \<and>
   read_process_memory broken_env
     (attached_controller\<lparr>exported_functions_cache := Some [(4096, PNone)]\<rparr>) 4096 16 [] =
     (Inl (Exception (RPCException ''access violation'')),
      attached_controller\<lparr>exported_functions_cache := Some [(4096, PNone)]\<rparr>,
      [Rpc (PHandle 2) ''read_process_memory'' [PInt 4096, PInt 16]])"
proof -
  let ?self = "attached_controller\<lparr>exported_functions_cache := Some [(4096, PNone)]\<rparr>"
  have h: "broken_env [] (Rpc (frida_rpc ?self) ''read_process_memory'' [PInt 4096, PInt 16])
      = Inl (RPCException ''access violation'')"
    by (simp add: broken_env_def)
  from failed_read_raises_and_keeps_state [where env = broken_env and tr = "[]"
      and self = ?self and address = 4096 and sz = 16] h
  have "read_process_memory broken_env ?self 4096 16 [] =
     (Inl (Exception (RPCException ''access violation'')), ?self,
      [] @ [Rpc (frida_rpc ?self) ''read_process_memory'' [PInt 4096, PInt 16]])"
    by blast
  with h show ?thesis by (simp add: attached_controller_def)
qed

text \<open>
  Claim C7 as stated covers every failure that the remote call reports. A failure
  that is not an \<^verbatim>\<open>RPCException\<close>, as for a destroyed script, is not turned into the
  remote operation error: it reaches the caller unchanged.
\<close>

theorem read_other_failure_counterexample:
  "read_process_memory detached_env
     (attached_controller\<lparr>exported_functions_cache := Some [(4096, PNone)]\<rparr>) 4096 16 [] =
     (Inl (ExternalError ''InvalidOperationError''),
      attached_controller\<lparr>exported_functions_cache := Some [(4096, PNone)]\<rparr>,
      [Rpc (PHandle 2) ''read_process_memory'' [PInt 4096, PInt 16]]) \<and>
   fst (read_process_memory detached_env
     (attached_controller\<lparr>exported_functions_cache := Some [(4096, PNone)]\<rparr>) 4096 16 [])
     \<noteq> Inl (Exception (ExternalError ''InvalidOperationError''))"
  by (simp add: read_process_memory_def perform_def detached_env_def attached_controller_def)

subsection \<open>Session set-up and tear-down\<close>

text \<open>
  Claim C8. The calls that \<^verbatim>\<open>spawn_and_instrument\<close> makes are an initial part of the
  steps of the specification, in their order; when it returns a controller they are
  all of the steps, so that the message sink is registered and the agent loaded
  before the identity is queried, the tracing is armed for the file name of the
  executable before the process is resumed, and the process is resumed before the
  controller is returned. The controller holds the process id, the file name of the
  executable as main module name, the session, the script, and no cache.
\<close>

theorem spawn_and_instrument_order:
  "\<exists>pid' session frida_js script new.
     snd (spawn_and_instrument env exe_path notify tr) = tr @ new \<and>
     prefix new (spawn_steps exe_path pid' session frida_js script) \<and>
     (\<forall>c. fst (spawn_and_instrument env exe_path notify tr) = Inr c \<longrightarrow>
        new = spawn_steps exe_path pid' session frida_js script \<and>
        pid c = pid' \<and> main_module_name c = path_name exe_path \<and>
        frida_session c = session \<and> frida_rpc c = script \<and>
        exported_functions_cache c = None)"
  unfolding spawn_and_instrument_def FridaProcessController_def Let_def
    io_bind_assoc io_bind_return io_bind_perform
  by (auto simp: spawn_steps_def io_return_def split: sum.splits)

theorem spawn_and_instrument_order_witness:
  "spawn_and_instrument agent_env
     \<lparr>path_str = ''C:/samples/packed.exe'', path_name = ''packed.exe''\<rparr>
     (caller_callback agent_env) [] =
     (Inr attached_controller,
      spawn_steps \<lparr>path_str = ''C:/samples/packed.exe'', path_name = ''packed.exe''\<rparr>
        (PInt 4242) (PHandle 1) (PStr ''rpc.exports = {};'') (PHandle 2)) \<and>
   (\<exists>pid' session frida_js script.
      spawn_steps \<lparr>path_str = ''C:/samples/packed.exe'', path_name = ''packed.exe''\<rparr>
        (PInt 4242) (PHandle 1) (PStr ''rpc.exports = {};'') (PHandle 2) =
      spawn_steps \<lparr>path_str = ''C:/samples/packed.exe'', path_name = ''packed.exe''\<rparr>
        pid' session frida_js script \<and>
      pid attached_controller = pid' \<and> frida_session attached_controller = session \<and>
      frida_rpc attached_controller = script)"
proof -
  let ?p = "\<lparr>path_str = ''C:/samples/packed.exe'', path_name = ''packed.exe''\<rparr>"
  have run: "spawn_and_instrument agent_env ?p (caller_callback agent_env) [] =
     (Inr attached_controller,
      spawn_steps ?p (PInt 4242) (PHandle 1) (PStr ''rpc.exports = {};'') (PHandle 2))"
    unfolding spawn_and_instrument_def FridaProcessController_def Let_def
      io_bind_assoc io_bind_return io_bind_perform
    by (simp add: spawn_steps_def io_return_def agent_env_def attached_controller_def)
  from spawn_and_instrument_order [of agent_env ?p "caller_callback agent_env" "[]"] run
  show ?thesis by auto
qed

text \<open>
  Claim C9, as amended. \<^verbatim>\<open>terminate_process\<close> first asks for the process to be killed,
  by its process id, on every call. When the kill request raises, its exception goes
  to the caller and the session is not released. When the kill request returns, the
  session is released after it, and the call returns, or raises the exception of the
  release. The controller is left as it was.
\<close>

theorem terminate_process_order:
  "snd (snd (terminate_process env self tr)) =
     tr @ Frida_kill (pid self) #
       (if isl (env tr (Frida_kill (pid self))) then [] else [Session_detach (frida_session self)]) \<and>
   fst (snd (terminate_process env self tr)) = self \<and>
   fst (terminate_process env self tr) =
     (case env tr (Frida_kill (pid self)) of
        Inl x \<Rightarrow> Inl x
      | Inr _ \<Rightarrow>
          (case env (tr @ [Frida_kill (pid self)]) (Session_detach (frida_session self)) of
             Inl x \<Rightarrow> Inl x
           | Inr _ \<Rightarrow> Inr ()))"
  by (auto simp add: terminate_process_def perform_def split: sum.splits)

theorem terminate_process_order_witness:
  "terminate_process agent_env attached_controller [] =
     (Inr (), attached_controller, [Frida_kill (PInt 4242), Session_detach (PHandle 1)])"
proof -
  have "agent_env [] (Frida_kill (pid attached_controller)) = Inr PNone"
    by (simp add: agent_env_def)
  moreover have "agent_env ([] @ [Frida_kill (pid attached_controller)])
      (Session_detach (frida_session attached_controller)) = Inr PNone"
    by (simp add: agent_env_def)
  ultimately show ?thesis
    using terminate_process_order [of agent_env attached_controller "[]"]
    by (simp add: prod_eq_iff attached_controller_def)
qed

text \<open>
  Claim C9 as stated says that both actions occur on every call. When the kill
  request raises, as for a process that is gone, the session is not released.
\<close>

theorem terminate_kill_failure_counterexample:
  "terminate_process broken_env attached_controller [] =
     (Inl (ExternalError ''ProcessNotFoundError''), attached_controller,
      [Frida_kill (PInt 4242)]) \<and>
   Session_detach (frida_session attached_controller)
     \<notin> set (snd (snd (terminate_process broken_env attached_controller [])))"
  by (simp add: terminate_process_def perform_def broken_env_def attached_controller_def)

end
